theory Spec2Isabelle
  imports Main "HOL-Library.Countable"
begin

section \<open>JavaScript values\<close>

text \<open>
  The server stores whatever the parsed JSON request bodies and the sheet rows hold, so
  the mirrors carry dynamically typed values. \<open>Num n\<close> is an integer-valued number
  (of magnitude below \<open>10^21\<close>, where JavaScript prints plain decimal digits); \<open>NaN\<close>
  is what \<^verbatim>\<open>parseInt\<close> yields on a cell that is no number.
\<close>

datatype jsval =
    Undefined
  | Null
  | Bool bool
  | Num int
  | NaN
  | Str string
  | Arr "jsval list"
  | Obj "(string \<times> jsval) list"

datatype js_error = SyntaxError | TypeError | StoreError

text \<open>ToBoolean: what \<^verbatim>\<open>!x\<close>, \<^verbatim>\<open>x && y\<close> and \<^verbatim>\<open>x || y\<close> test.\<close>

fun truthy :: "jsval \<Rightarrow> bool" where
  "truthy Undefined = False"
| "truthy Null = False"
| "truthy (Bool b) = b"
| "truthy (Num n) = (n \<noteq> 0)"
| "truthy NaN = False"
| "truthy (Str s) = (s \<noteq> [])"
| "truthy (Arr xs) = True"
| "truthy (Obj kvs) = True"

definition js_or :: "jsval \<Rightarrow> jsval \<Rightarrow> jsval" where
  "js_or a b = (if truthy a then a else b)"

text \<open>
  Strict equality \<^verbatim>\<open>===\<close>. Arrays and objects are compared by reference; the two
  operands of every \<^verbatim>\<open>===\<close> of the server come from different requests or rows, so
  two objects are never the same reference. \<^verbatim>\<open>NaN\<close> equals nothing.
\<close>

fun strict_eq :: "jsval \<Rightarrow> jsval \<Rightarrow> bool" where
  "strict_eq Undefined Undefined = True"
| "strict_eq Null Null = True"
| "strict_eq (Bool a) (Bool b) = (a = b)"
| "strict_eq (Num a) (Num b) = (a = b)"
| "strict_eq (Str a) (Str b) = (a = b)"
| "strict_eq _ _ = False"

text \<open>Decimal digits of a natural number, most significant first.\<close>

fun digits :: "nat \<Rightarrow> string" where
  "digits n =
     (if n < 10 then [''0123456789'' ! n]
      else digits (n div 10) @ [''0123456789'' ! (n mod 10)])"

declare digits.simps [simp del]

definition join :: "string \<Rightarrow> string list \<Rightarrow> string" where
  "join sep xs = (case xs of [] \<Rightarrow> [] | y # ys \<Rightarrow> y @ concat (map (\<lambda>z. sep @ z) ys))"

text \<open>
  ToString, which is also the conversion of a value used as a property key
  (\<^verbatim>\<open>employees[id]\<close>) and what \<^verbatim>\<open>l.id.toString()\<close> returns on a number.
\<close>

fun to_string :: "jsval \<Rightarrow> string" where
  "to_string Undefined = ''undefined''"
| "to_string Null = ''null''"
| "to_string (Bool b) = (if b then ''true'' else ''false'')"
| "to_string (Num n) = (if n < 0 then ''-'' @ digits (nat (- n)) else digits (nat n))"
| "to_string NaN = ''NaN''"
| "to_string (Str s) = s"
| "to_string (Arr xs) =
     join '','' (map (\<lambda>x. if x = Undefined \<or> x = Null then [] else to_string x) xs)"
| "to_string (Obj kvs) = ''[object Object]''"

text \<open>
  Reading a property \<^verbatim>\<open>v.k\<close> for a name \<open>k\<close> that no prototype defines: a
  \<^verbatim>\<open>TypeError\<close> on \<^verbatim>\<open>undefined\<close> and \<^verbatim>\<open>null\<close>, the own property of an
  object, \<^verbatim>\<open>undefined\<close> otherwise.
\<close>

definition field :: "(string \<times> jsval) list \<Rightarrow> string \<Rightarrow> jsval" where
  "field kvs k = (case map_of kvs k of None \<Rightarrow> Undefined | Some v \<Rightarrow> v)"

fun get_prop :: "jsval \<Rightarrow> string \<Rightarrow> js_error + jsval" where
  "get_prop Undefined k = Inl TypeError"
| "get_prop Null k = Inl TypeError"
| "get_prop (Obj kvs) k = Inr (field kvs k)"
| "get_prop _ k = Inr Undefined"


section \<open>Built-ins and libraries the server calls\<close>

text \<open>
  The functions of the runtime and of the libraries that the server only calls are
  parameters of the model: \<^verbatim>\<open>JSON.parse\<close> (\<open>None\<close> when it throws a
  \<^verbatim>\<open>SyntaxError\<close>), \<^verbatim>\<open>JSON.stringify\<close>, \<^verbatim>\<open>parseInt\<close> (\<open>None\<close> for
  \<^verbatim>\<open>NaN\<close>), \<^verbatim>\<open>jwt.sign\<close> and \<^verbatim>\<open>jwt.verify\<close> under \<^verbatim>\<open>JWT_SECRET\<close>
  (\<open>None\<close> when verification throws: bad signature, expired, malformed), and the text
  under which the sheet returns a value written with \<^verbatim>\<open>valueInputOption: 'RAW'\<close>.
\<close>

record env =
  JSON_parse :: "string \<Rightarrow> jsval option"
  JSON_stringify :: "jsval \<Rightarrow> jsval"
  parseInt :: "jsval \<Rightarrow> int option"
  jwt_sign :: "jsval \<Rightarrow> string"
  jwt_verify :: "string \<Rightarrow> jsval option"
  cell_text :: "jsval \<Rightarrow> string"

section \<open>The mirrors and the store\<close>

record employee =
  name :: jsval
  password :: jsval
  isAdmin :: jsval

record leave =
  leave_id :: jsval
  leave_type :: jsval
  fromDate :: jsval
  toDate :: jsval
  reason :: jsval
  status :: jsval
  appliedOn :: jsval
  employeeId :: jsval

type_synonym sheet = "string list list"

text \<open>
  The three mirrors are the objects \<^verbatim>\<open>employees\<close>, \<^verbatim>\<open>attendanceData\<close> and
  \<^verbatim>\<open>leaveData\<close>, as maps from their own property keys (a key that names a
  property every object inherits, such as \<^verbatim>\<open>constructor\<close>, is outside the model).
  The store is the three sheets of the spreadsheet, each a list of rows of cell texts;
  row \<open>n\<close> of a sheet (counted from 1, as in the range \<^verbatim>\<open>F2\<close>) is the element
  of index \<open>n - 1\<close>.
\<close>

record state =
  employees :: "string \<rightharpoonup> employee"
  attendanceData :: "string \<rightharpoonup> (string \<rightharpoonup> jsval)"
  leaveData :: "string \<rightharpoonup> leave list"
  Employees_sheet :: sheet
  Attendance_sheet :: sheet
  Leave_sheet :: sheet

datatype body =
    Success
  | Login_ok jsval string
  | Failure string
  | Message string
  | Attendance_of "string \<rightharpoonup> jsval"
  | Leaves "leave list"
  | All_attendance "string \<rightharpoonup> (string \<rightharpoonup> jsval)"
  | All_leave "string \<rightharpoonup> leave list"

type_synonym response = "nat \<times> body"

subsection \<open>Store adapter\<close>

text \<open>\<^verbatim>\<open>row[k]\<close>: the cell, or \<^verbatim>\<open>undefined\<close> beyond the end of the row.\<close>

definition cell :: "string list \<Rightarrow> nat \<Rightarrow> jsval" where
  "cell row k = (if k < length row then Str (row ! k) else Undefined)"

text \<open>
  \<^verbatim>\<open>response.data.values\<close> of a read of a whole sheet: the rows from row 1 on, and
  no \<^verbatim>\<open>values\<close> property at all when the sheet is empty.
\<close>

definition values_get :: "sheet \<Rightarrow> sheet option" where
  "values_get sh = (if sh = [] then None else Some sh)"

definition values_or_empty :: "sheet \<Rightarrow> sheet" where
  "values_or_empty sh = (case values_get sh of None \<Rightarrow> [] | Some rows \<Rightarrow> rows)"

definition values_append :: "sheet \<Rightarrow> string list \<Rightarrow> sheet" where
  "values_append sh row = sh @ [row]"



subsection \<open>Loading the mirrors\<close>

datatype load_log = Loaded | Load_error js_error

definition employee_row :: "string list \<Rightarrow> (string \<rightharpoonup> employee) \<Rightarrow> (string \<rightharpoonup> employee)" where
  "employee_row row m =
     (if truthy (cell row 0) \<and> truthy (cell row 1)
      then m(to_string (cell row 0) \<mapsto>
             \<lparr>name = cell row 1, password = cell row 2,
              isAdmin = Bool (strict_eq (cell row 3) (Str ''true''))\<rparr>)
      else m)"

definition loadEmployeesFromSheets :: "bool \<Rightarrow> state \<Rightarrow> load_log \<times> state" where
  "loadEmployeesFromSheets ok s =
     (if \<not> ok then (Load_error StoreError, s)
      else (Loaded,
            s\<lparr>employees := fold employee_row (values_or_empty (Employees_sheet s)) (employees s)\<rparr>))"

text \<open>\<^verbatim>\<open>if (!attendanceData[empId]) attendanceData[empId] = {}\<close>\<close>

definition ensure :: "(string \<rightharpoonup> (string \<rightharpoonup> jsval)) \<Rightarrow> string \<Rightarrow> (string \<rightharpoonup> (string \<rightharpoonup> jsval))" where
  "ensure m k = (case m k of None \<Rightarrow> m(k \<mapsto> Map.empty) | Some _ \<Rightarrow> m)"

text \<open>\<^verbatim>\<open>attendanceData[empId] || {}\<close>\<close>

definition days :: "(string \<rightharpoonup> (string \<rightharpoonup> jsval)) \<Rightarrow> string \<Rightarrow> (string \<rightharpoonup> jsval)" where
  "days m k = (case m k of None \<Rightarrow> Map.empty | Some d \<Rightarrow> d)"

text \<open>\<^verbatim>\<open>attendanceData[empId][date] = r\<close>, once \<^verbatim>\<open>attendanceData[empId]\<close> exists.\<close>

definition set_day :: "(string \<rightharpoonup> (string \<rightharpoonup> jsval)) \<Rightarrow> string \<Rightarrow> string \<Rightarrow> jsval \<Rightarrow> (string \<rightharpoonup> (string \<rightharpoonup> jsval))" where
  "set_day m k d r = m(k \<mapsto> (days m k)(d \<mapsto> r))"

text \<open>
  One turn of the \<^verbatim>\<open>forEach\<close> of \<^verbatim>\<open>loadAttendanceFromSheets\<close>: the exception
  thrown, if any, and the mirror as the turn leaves it.
\<close>

definition attendance_row ::
  "env \<Rightarrow> string list \<Rightarrow> (string \<rightharpoonup> (string \<rightharpoonup> jsval)) \<Rightarrow> js_error option \<times> (string \<rightharpoonup> (string \<rightharpoonup> jsval))" where
  "attendance_row e row m =
     (let empId = cell row 0; date = cell row 1; checkIn = cell row 2; checkOut = cell row 3
      in case JSON_parse e (to_string (js_or (cell row 4) (Str ''{}''))) of
           None \<Rightarrow> (Some SyntaxError, m)
         | Some location \<Rightarrow>
             (let isLate = Bool (strict_eq (cell row 5) (Str ''true''));
                  isHalfDay = Bool (strict_eq (cell row 6) (Str ''true''));
                  m1 = ensure m (to_string empId)
              in case get_prop location ''checkIn'' of
                   Inl err \<Rightarrow> (Some err, m1)
                 | Inr ci \<Rightarrow>
                     (case get_prop location ''checkOut'' of
                        Inl err \<Rightarrow> (Some err, m1)
                      | Inr co \<Rightarrow>
                          (None, set_day m1 (to_string empId) (to_string date)
                             (Obj [(''checkIn'', checkIn), (''checkOut'', checkOut),
                                   (''checkInLocation'', js_or ci (Obj [])),
                                   (''checkOutLocation'', js_or co (Obj [])),
                                   (''isLate'', isLate), (''isHalfDay'', isHalfDay),
                                   (''date'', date)])))))"

text \<open>The \<^verbatim>\<open>forEach\<close>: an exception leaves the loop, the rows merged so far stay.\<close>

fun attendance_forEach ::
  "env \<Rightarrow> sheet \<Rightarrow> (string \<rightharpoonup> (string \<rightharpoonup> jsval)) \<Rightarrow> js_error option \<times> (string \<rightharpoonup> (string \<rightharpoonup> jsval))" where
  "attendance_forEach e [] m = (None, m)"
| "attendance_forEach e (row # rows) m =
     (case attendance_row e row m of
        (Some err, m') \<Rightarrow> (Some err, m')
      | (None, m') \<Rightarrow> attendance_forEach e rows m')"

text \<open>The \<^verbatim>\<open>catch\<close> logs the error and the function returns normally.\<close>

definition loadAttendanceFromSheets :: "env \<Rightarrow> bool \<Rightarrow> state \<Rightarrow> load_log \<times> state" where
  "loadAttendanceFromSheets e ok s =
     (if \<not> ok then (Load_error StoreError, s)
      else case attendance_forEach e (values_or_empty (Attendance_sheet s)) (attendanceData s) of
             (Some err, m') \<Rightarrow> (Load_error err, s\<lparr>attendanceData := m'\<rparr>)
           | (None, m') \<Rightarrow> (Loaded, s\<lparr>attendanceData := m'\<rparr>))"



text \<open>\<^verbatim>\<open>if (!leaveData[empId]) leaveData[empId] = []; leaveData[empId].push(leave)\<close>\<close>

definition push_leave :: "(string \<rightharpoonup> leave list) \<Rightarrow> string \<Rightarrow> leave \<Rightarrow> (string \<rightharpoonup> leave list)" where
  "push_leave m k l = m(k \<mapsto> (case m k of None \<Rightarrow> [] | Some ls \<Rightarrow> ls) @ [l])"



section \<open>Routes\<close>

text \<open>
  A handler takes the state and returns the response and the state it leaves. A request
  body is the parsed JSON object; a field the body lacks reads as \<^verbatim>\<open>undefined\<close>.
  Every call of the store has an outcome \<open>ok\<close>, an input of the handler: when it is
  \<open>False\<close> the call throws and the sheet stays as it was.
\<close>

subsection \<open>Login and the admin guard\<close>

definition login :: "env \<Rightarrow> (string \<times> jsval) list \<Rightarrow> state \<Rightarrow> response \<times> state" where
  "login e req s =
     (let id' = field req ''id''; pw = field req ''password''
      in case employees s (to_string id') of
           None \<Rightarrow> ((401, Failure ''Invalid credentials''), s)
         | Some emp \<Rightarrow>
             if strict_eq (password emp) pw
             then ((200, Login_ok (name emp)
                           (jwt_sign e (Obj [(''userId'', id'), (''isAdmin'', isAdmin emp)]))), s)
             else ((401, Failure ''Invalid credentials''), s))"





subsection \<open>Attendance\<close>







definition admin_attendance :: "state \<Rightarrow> response \<times> state" where
  "admin_attendance s = ((200, All_attendance (attendanceData s)), s)"

subsection \<open>Leave\<close>


text \<open>
  \<open>now\<close> is the reading of \<^verbatim>\<open>Date.now()\<close> (milliseconds) and \<open>today\<close> the text of
  \<^verbatim>\<open>new Date().toLocaleDateString()\<close> when the handler runs.
\<close>

definition new_leave :: "int \<Rightarrow> string \<Rightarrow> (string \<times> jsval) list \<Rightarrow> leave" where
  "new_leave now today req =
     \<lparr>leave_id = Num now, leave_type = field req ''type'', fromDate = field req ''fromDate'',
      toDate = field req ''toDate'', reason = field req ''reason'', status = Str ''Pending'',
      appliedOn = Str today, employeeId = field req ''empId''\<rparr>"

definition leave_values :: "env \<Rightarrow> leave \<Rightarrow> string list" where
  "leave_values e l =
     map (cell_text e)
       [employeeId l, leave_id l, leave_type l, fromDate l, toDate l, reason l, status l,
        appliedOn l]"

definition post_leave ::
  "env \<Rightarrow> bool \<Rightarrow> int \<Rightarrow> string \<Rightarrow> (string \<times> jsval) list \<Rightarrow> state \<Rightarrow> response \<times> state" where
  "post_leave e ok now today req s =
     (let l = new_leave now today req;
          s1 = s\<lparr>leaveData := push_leave (leaveData s) (to_string (field req ''empId'')) l\<rparr>
      in if ok
         then ((200, Success),
               s1\<lparr>Leave_sheet := values_append (Leave_sheet s1) (leave_values e l)\<rparr>)
         else ((500, Failure ''Failed to save leave''), s1))"





definition admin_leave :: "state \<Rightarrow> response \<times> state" where
  "admin_leave s = ((200, All_leave (leaveData s)), s)"

subsection \<open>Employees\<close>

definition post_employee ::
  "env \<Rightarrow> bool \<Rightarrow> (string \<times> jsval) list \<Rightarrow> state \<Rightarrow> response \<times> state" where
  "post_employee e ok req s =
     (let id' = field req ''id''; nm = field req ''name''; pw = field req ''password'';
          adm = field req ''isAdmin'';
          s1 = s\<lparr>employees := (employees s)(to_string id' \<mapsto>
                   \<lparr>name = nm, password = pw, isAdmin = js_or adm (Bool False)\<rparr>)\<rparr>
      in if ok
         then ((200, Success),
               s1\<lparr>Employees_sheet := values_append (Employees_sheet s1)
                    (map (cell_text e)
                       [id', nm, pw, Str (if truthy adm then ''true'' else ''false'')])\<rparr>)
         else ((500, Failure ''Failed to save employee''), s1))"

text \<open>\<^verbatim>\<open>DELETE /api/admin/employee/:id\<close>, behind the guard: three \<^verbatim>\<open>delete\<close>s.\<close>

definition delete_employee :: "string \<Rightarrow> state \<Rightarrow> response \<times> state" where
  "delete_employee id' s =
     ((200, Success),
      s\<lparr>employees := (employees s)(id' := None),
        attendanceData := (attendanceData s)(id' := None),
        leaveData := (leaveData s)(id' := None)\<rparr>)"

section \<open>A concrete environment and store\<close>

text \<open>
  The state of a process that has just started: \<^verbatim>\<open>let attendanceData = {}\<close>,
  \<^verbatim>\<open>let leaveData = {}\<close>, \<^verbatim>\<open>let employees = {}\<close>, over the store as it is.
\<close>

definition startup :: "state \<Rightarrow> state" where
  "startup s = s\<lparr>employees := Map.empty, attendanceData := Map.empty, leaveData := Map.empty\<rparr>"

text \<open>
  The examples below run the model in \<open>sample_env\<close>. Its \<^verbatim>\<open>JSON.parse\<close>,
  \<^verbatim>\<open>JSON.stringify\<close> and \<^verbatim>\<open>parseInt\<close> agree with the built-ins on the texts the
  examples use (\<^verbatim>\<open>{}\<close> is the empty object, \<^verbatim>\<open>{bad\<close> is no JSON text, the
  serialisation of \<^verbatim>\<open>undefined\<close> is \<^verbatim>\<open>undefined\<close>, \<^verbatim>\<open>parseInt('7')\<close> is 7). Its
  tokens are a bare injective encoding of the payload, so that \<^verbatim>\<open>jwt.verify\<close> returns
  what \<^verbatim>\<open>jwt.sign\<close> was given and rejects any other text.
\<close>

instance jsval :: countable
  by countable_datatype

definition sample_env :: env where
  "sample_env =
     \<lparr>JSON_parse = (\<lambda>t. if t = ''{}'' then Some (Obj []) else None),
      JSON_stringify = (\<lambda>v. case v of Undefined \<Rightarrow> Undefined | _ \<Rightarrow> Str ''{}''),
      parseInt = (\<lambda>v. if v = Str ''7'' then Some 7 else None),
      jwt_sign = (\<lambda>p. replicate (Suc (to_nat p)) CHR ''x''),
      jwt_verify = (\<lambda>t. if t \<noteq> [] \<and> set t \<subseteq> {CHR ''x''}
                         then Some (from_nat (length t - 1)) else None),
      cell_text = (\<lambda>v. case v of Undefined \<Rightarrow> [] | Null \<Rightarrow> [] | _ \<Rightarrow> to_string v)\<rparr>"

definition sample_state :: state where
  "sample_state =
     \<lparr>employees =
        [''E1'' \<mapsto> \<lparr>name = Str ''Asha'', password = Str ''pw1'', isAdmin = Bool False\<rparr>,
         ''A1'' \<mapsto> \<lparr>name = Str ''Ravi'', password = Str ''root'', isAdmin = Bool True\<rparr>],
      attendanceData =
        [''E1'' \<mapsto> [''2024-01-02'' \<mapsto> Obj [(''checkIn'', Str ''09:00'')]],
         ''A1'' \<mapsto> [''2024-01-02'' \<mapsto> Obj [(''checkIn'', Str ''08:30'')]]],
      leaveData =
        [''E1'' \<mapsto> [\<lparr>leave_id = Num 7, leave_type = Str ''Sick'', fromDate = Str ''2024-02-01'',
                      toDate = Str ''2024-02-02'', reason = Str ''flu'', status = Str ''Pending'',
                      appliedOn = Str ''1/30/2024'', employeeId = Str ''E1''\<rparr>],
         ''A1'' \<mapsto> []],
      Employees_sheet =
        [[''E1'', ''Asha'', ''pw1'', ''false''], [''A1'', ''Ravi'', ''root'', ''true'']],
      Attendance_sheet =
        [[''A1'', ''2024-01-02'', ''08:30'', ''17:30'', ''{}'', ''false'', ''false''],
         [''E1'', ''2024-01-02'', ''09:00'', ''17:00'', ''{bad'', ''false'', ''false''],
         [''E1'', ''2024-01-03'', ''09:20'', ''17:00'', [], ''true'', ''false'']],
      Leave_sheet =
        [[''E1'', ''7'', ''Sick'', ''2024-02-01'', ''2024-02-02'', ''flu'', ''Pending'',
          ''1/30/2024'']]\<rparr>"

section \<open>Helper facts\<close>



lemma sample_jwt: "jwt_verify sample_env (jwt_sign sample_env p) = Some p"
  by (auto simp: sample_env_def)


section \<open>Attendance: the mirror is written first\<close>




section \<open>Login and the admin guard\<close>



text \<open>
  C7. When the submitted id is a key \<open>i\<close> of the employee mirror and the submitted
  password is \<^verbatim>\<open>===\<close> to the password stored for \<open>i\<close>, login answers 200 with the
  stored name and the token that \<^verbatim>\<open>jwt.sign\<close> makes of the payload
  \<^verbatim>\<open>{userId: i, isAdmin: employees[i].isAdmin}\<close>. Under the contract of the library
  (verifying a token it has just signed returns the signed payload, possibly with more
  claims such as the expiry), the token decodes to that identifier and that admin flag.
\<close>

theorem login_issues_token:
  assumes "employees s i = Some emp"
      and "field req ''id'' = Str i"
      and "strict_eq (password emp) (field req ''password'')"
      and "\<And>kvs. \<exists>extra. jwt_verify e (jwt_sign e (Obj kvs)) = Some (Obj (kvs @ extra))"
  shows "\<exists>tok d. login e req s = ((200, Login_ok (name emp) tok), s)
           \<and> tok = jwt_sign e (Obj [(''userId'', Str i), (''isAdmin'', isAdmin emp)])
           \<and> jwt_verify e tok = Some d
           \<and> get_prop d ''userId'' = Inr (Str i)
           \<and> get_prop d ''isAdmin'' = Inr (isAdmin emp)"
proof -
  let ?p = "[(''userId'', Str i), (''isAdmin'', isAdmin emp)]"
  obtain extra where v: "jwt_verify e (jwt_sign e (Obj ?p)) = Some (Obj (?p @ extra))"
    using assms(4) by blast
  have l: "login e req s = ((200, Login_ok (name emp) (jwt_sign e (Obj ?p))), s)"
    using assms(1-3) by (simp add: login_def Let_def)
  have "get_prop (Obj (?p @ extra)) ''userId'' = Inr (Str i)"
    and "get_prop (Obj (?p @ extra)) ''isAdmin'' = Inr (isAdmin emp)"
    by (simp_all add: field_def)
  with v l show ?thesis by blast
qed

theorem login_issues_token_witness:
  "\<exists>tok d. login sample_env [(''id'', Str ''A1''), (''password'', Str ''root'')] sample_state
             = ((200, Login_ok (Str ''Ravi'') tok), sample_state)
         \<and> jwt_verify sample_env tok = Some d
         \<and> get_prop d ''userId'' = Inr (Str ''A1'')
         \<and> get_prop d ''isAdmin'' = Inr (Bool True)"
proof -
  let ?req = "[(''id'', Str ''A1''), (''password'', Str ''root'')]"
  let ?emp = "\<lparr>name = Str ''Ravi'', password = Str ''root'', isAdmin = Bool True\<rparr>"
  have h1: "employees sample_state ''A1'' = Some ?emp"
    by (simp add: sample_state_def)
  have h2: "field ?req ''id'' = Str ''A1''"
    by (simp add: field_def)
  have h3: "strict_eq (password ?emp) (field ?req ''password'')"
    by (simp add: field_def)
  have h4: "\<And>kvs. \<exists>extra. jwt_verify sample_env (jwt_sign sample_env (Obj kvs))
                              = Some (Obj (kvs @ extra))"
    by (rule exI [of _ "[]"]) (simp add: sample_jwt)
  show ?thesis
    using login_issues_token [OF h1 h2 h3 h4] by simp
qed



section \<open>Deleting an employee\<close>



text \<open>
  C10. The delete handler answers 200 success for every identifier, whether or not any
  mirror has it, and deleting an identifier a second time returns the same response and
  the same state as deleting it once.
\<close>

theorem delete_employee_idempotent:
  "fst (delete_employee E s) = (200, Success)
   \<and> delete_employee E (snd (delete_employee E s)) = delete_employee E s"
  by (simp add: delete_employee_def)

section \<open>Leave identifiers\<close>

text \<open>
  C3. The identifier of a new leave request is the reading of the millisecond clock when
  the handler runs, whatever the request holds. After two requests of one employee in
  succession, made at the readings \<open>t1\<close> and \<open>t2\<close>, the employee's list ends with the
  two new leaves, with the identifiers \<open>t1\<close> and \<open>t2\<close>: the second identifier is the
  greater one exactly when the clock has advanced between the two requests.
\<close>

theorem post_leave_ids:
  assumes "to_string (field r1 ''empId'') = E" and "to_string (field r2 ''empId'') = E"
  shows "\<exists>l1 l2.
           leaveData (snd (post_leave e ok2 t2 d2 r2 (snd (post_leave e ok1 t1 d1 r1 s)))) E
             = Some ((case leaveData s E of None \<Rightarrow> [] | Some ls \<Rightarrow> ls) @ [l1, l2])
           \<and> leave_id l1 = Num t1 \<and> leave_id l2 = Num t2
           \<and> status l1 = Str ''Pending'' \<and> status l2 = Str ''Pending''
           \<and> ((\<exists>a b. leave_id l1 = Num a \<and> leave_id l2 = Num b \<and> a < b) \<longleftrightarrow> t1 < t2)"
  using assms by (simp add: post_leave_def Let_def push_leave_def new_leave_def)

theorem post_leave_ids_witness:
  "\<exists>l1 l2.
     leaveData (snd (post_leave sample_env True 1706600000250 ''1/30/2024''
                       [(''empId'', Str ''A1''), (''type'', Str ''Sick'')]
                       (snd (post_leave sample_env True 1706600000000 ''1/30/2024''
                               [(''empId'', Str ''A1''), (''type'', Str ''Casual'')] sample_state))))
       ''A1'' = Some [l1, l2]
     \<and> leave_id l1 = Num 1706600000000 \<and> leave_id l2 = Num 1706600000250"
proof -
  have h1: "to_string (field [(''empId'', Str ''A1''), (''type'', Str ''Casual'')] ''empId'') = ''A1''"
    by (simp add: field_def)
  have h2: "to_string (field [(''empId'', Str ''A1''), (''type'', Str ''Sick'')] ''empId'') = ''A1''"
    by (simp add: field_def)
  have h3: "leaveData sample_state ''A1'' = Some []"
    by (simp add: sample_state_def)
  show ?thesis
    using post_leave_ids [OF h1 h2, of sample_env True 1706600000250 "''1/30/2024''" True
        1706600000000 "''1/30/2024''" sample_state] h3
    by auto
qed

text \<open>
  Two requests of one employee handled within the same millisecond get the same
  identifier.
\<close>

theorem post_leave_ids_counterexample:
  "map leave_id
     (case leaveData (snd (post_leave sample_env True 1706600000000 ''1/30/2024''
                             [(''empId'', Str ''A1''), (''type'', Str ''Sick'')]
                             (snd (post_leave sample_env True 1706600000000 ''1/30/2024''
                                     [(''empId'', Str ''A1''), (''type'', Str ''Casual'')]
                                     sample_state)))) ''A1''
      of None \<Rightarrow> [] | Some ls \<Rightarrow> ls)
   = [Num 1706600000000, Num 1706600000000]"
  by (simp add: post_leave_def Let_def push_leave_def new_leave_def field_def sample_state_def)

section \<open>Loading attendance\<close>

lemma attendance_forEach_append:
  "attendance_forEach e (xs @ ys) m =
     (case attendance_forEach e xs m of
        (Some err, m') \<Rightarrow> (Some err, m')
      | (None, m') \<Rightarrow> attendance_forEach e ys m')"
  by (induction xs arbitrary: m) (auto split: prod.splits option.splits)

lemma attendance_row_syntax_error:
  "cell row 4 = Str t \<Longrightarrow> t \<noteq> [] \<Longrightarrow> JSON_parse e t = None \<Longrightarrow>
   attendance_row e row m = (Some SyntaxError, m)"
  by (simp add: attendance_row_def js_or_def Let_def)

text \<open>
  C4. A row whose location cell is absent or empty is parsed as \<^verbatim>\<open>{}\<close> and merged
  with an empty check-in and an empty check-out location. A row whose location cell holds
  a non-empty text that \<^verbatim>\<open>JSON.parse\<close> rejects ends the load at that row: the mirror
  is left as the rows before it made it, that row and the rows after it are not merged,
  and the loader logs the error and returns.
\<close>

theorem loadAttendance_location:
  "(\<not> truthy (cell r 4) \<and> JSON_parse e ''{}'' = Some (Obj []) \<longrightarrow>
      attendance_row e r m0 =
        (None, set_day (ensure m0 (to_string (cell r 0))) (to_string (cell r 0))
                 (to_string (cell r 1))
                 (Obj [(''checkIn'', cell r 2), (''checkOut'', cell r 3),
                       (''checkInLocation'', Obj []), (''checkOutLocation'', Obj []),
                       (''isLate'', Bool (strict_eq (cell r 5) (Str ''true''))),
                       (''isHalfDay'', Bool (strict_eq (cell r 6) (Str ''true''))),
                       (''date'', cell r 1)])))
   \<and> (Attendance_sheet s = before @ row # rest
        \<and> attendance_forEach e before (attendanceData s) = (None, m')
        \<and> cell row 4 = Str t \<and> t \<noteq> [] \<and> JSON_parse e t = None \<longrightarrow>
      loadAttendanceFromSheets e True s = (Load_error SyntaxError, s\<lparr>attendanceData := m'\<rparr>))"
proof (intro conjI impI)
  assume "\<not> truthy (cell r 4) \<and> JSON_parse e ''{}'' = Some (Obj [])"
  then show "attendance_row e r m0 =
        (None, set_day (ensure m0 (to_string (cell r 0))) (to_string (cell r 0))
                 (to_string (cell r 1))
                 (Obj [(''checkIn'', cell r 2), (''checkOut'', cell r 3),
                       (''checkInLocation'', Obj []), (''checkOutLocation'', Obj []),
                       (''isLate'', Bool (strict_eq (cell r 5) (Str ''true''))),
                       (''isHalfDay'', Bool (strict_eq (cell r 6) (Str ''true''))),
                       (''date'', cell r 1)]))"
    by (simp add: attendance_row_def js_or_def Let_def field_def)
next
  assume a: "Attendance_sheet s = before @ row # rest
        \<and> attendance_forEach e before (attendanceData s) = (None, m')
        \<and> cell row 4 = Str t \<and> t \<noteq> [] \<and> JSON_parse e t = None"
  then have "attendance_row e row m' = (Some SyntaxError, m')"
    by (simp add: attendance_row_syntax_error)
  with a have "attendance_forEach e (before @ row # rest) (attendanceData s)
                 = (Some SyntaxError, m')"
    by (simp add: attendance_forEach_append)
  with a show "loadAttendanceFromSheets e True s
                 = (Load_error SyntaxError, s\<lparr>attendanceData := m'\<rparr>)"
    by (simp add: loadAttendanceFromSheets_def values_or_empty_def values_get_def)
qed

theorem loadAttendance_location_witness:
  "attendance_row sample_env [''E1'', ''2024-01-03'', ''09:20'', ''17:00'', [], ''true'', ''false'']
     Map.empty
     = (None, [''E1'' \<mapsto> [''2024-01-03'' \<mapsto>
                 Obj [(''checkIn'', Str ''09:20''), (''checkOut'', Str ''17:00''),
                      (''checkInLocation'', Obj []), (''checkOutLocation'', Obj []),
                      (''isLate'', Bool True), (''isHalfDay'', Bool False),
                      (''date'', Str ''2024-01-03'')]]])
   \<and> loadAttendanceFromSheets sample_env True (startup sample_state)
     = (Load_error SyntaxError,
        (startup sample_state)\<lparr>attendanceData :=
           [''A1'' \<mapsto> [''2024-01-02'' \<mapsto>
              Obj [(''checkIn'', Str ''08:30''), (''checkOut'', Str ''17:30''),
                   (''checkInLocation'', Obj []), (''checkOutLocation'', Obj []),
                   (''isLate'', Bool False), (''isHalfDay'', Bool False),
                   (''date'', Str ''2024-01-02'')]]]\<rparr>)"
proof -
  let ?r1 = "[''A1'', ''2024-01-02'', ''08:30'', ''17:30'', ''{}'', ''false'', ''false'']"
  let ?r2 = "[''E1'', ''2024-01-02'', ''09:00'', ''17:00'', ''{bad'', ''false'', ''false'']"
  let ?r3 = "[''E1'', ''2024-01-03'', ''09:20'', ''17:00'', [], ''true'', ''false'']"
  let ?m = "[''A1'' \<mapsto> [''2024-01-02'' \<mapsto>
              Obj [(''checkIn'', Str ''08:30''), (''checkOut'', Str ''17:30''),
                   (''checkInLocation'', Obj []), (''checkOutLocation'', Obj []),
                   (''isLate'', Bool False), (''isHalfDay'', Bool False),
                   (''date'', Str ''2024-01-02'')]]]"
  have p: "JSON_parse sample_env ''{}'' = Some (Obj [])"
    and q: "JSON_parse sample_env ''{bad'' = None"
    by (simp_all add: sample_env_def)
  have h1: "\<not> truthy (cell ?r3 4) \<and> JSON_parse sample_env ''{}'' = Some (Obj [])"
    using p by (simp add: cell_def)
  have "attendance_row sample_env ?r1 Map.empty = (None, ?m)"
    using p by (simp add: attendance_row_def cell_def js_or_def field_def ensure_def
        set_day_def days_def)
  then have h2: "Attendance_sheet (startup sample_state) = [?r1] @ ?r2 # [?r3]
        \<and> attendance_forEach sample_env [?r1] (attendanceData (startup sample_state)) = (None, ?m)
        \<and> cell ?r2 4 = Str ''{bad'' \<and> ''{bad'' \<noteq> [] \<and> JSON_parse sample_env ''{bad'' = None"
    using q by (simp add: startup_def sample_state_def cell_def)
  note t = loadAttendance_location [of ?r3 sample_env Map.empty "startup sample_state"
      "[?r1]" ?r2 "[?r3]" ?m "''{bad''"]
  have a: "attendance_row sample_env ?r3 Map.empty =
        (None, set_day (ensure Map.empty (to_string (cell ?r3 0))) (to_string (cell ?r3 0))
                 (to_string (cell ?r3 1))
                 (Obj [(''checkIn'', cell ?r3 2), (''checkOut'', cell ?r3 3),
                       (''checkInLocation'', Obj []), (''checkOutLocation'', Obj []),
                       (''isLate'', Bool (strict_eq (cell ?r3 5) (Str ''true''))),
                       (''isHalfDay'', Bool (strict_eq (cell ?r3 6) (Str ''true''))),
                       (''date'', cell ?r3 1)]))"
    using t h1 by blast
  have b: "loadAttendanceFromSheets sample_env True (startup sample_state)
             = (Load_error SyntaxError, (startup sample_state)\<lparr>attendanceData := ?m\<rparr>)"
    using t h2 by blast
  have "set_day (ensure Map.empty ''E1'') ''E1'' ''2024-01-03'' v = [''E1'' \<mapsto> [''2024-01-03'' \<mapsto> v]]"
    for v :: jsval
    by (simp add: set_day_def ensure_def days_def)
  with a b show ?thesis
    by (simp add: cell_def)
qed

text \<open>
  With the second row's location malformed, the load of the sample sheet ends in the
  error: employee \<open>E1\<close>, whose rows are the malformed one and the one after it, is
  absent from the mirror.
\<close>

theorem loadAttendance_location_counterexample:
  "fst (loadAttendanceFromSheets sample_env True (startup sample_state)) = Load_error SyntaxError
   \<and> attendanceData (snd (loadAttendanceFromSheets sample_env True (startup sample_state))) ''E1''
       = None"
  by (simp add: loadAttendanceFromSheets_def values_or_empty_def values_get_def startup_def
      sample_state_def sample_env_def attendance_row_def cell_def js_or_def field_def
      ensure_def set_day_def days_def)

section \<open>Leave status: update and reload\<close>











end
